theory Spec2Isabelle
  imports Complex_Main "HOL-Library.Word" "HOL-Library.AList"
begin

unbundle bit_operations_syntax

section \<open>Python values and exceptions\<close>

text \<open>
  The exceptions that the modelled part of \<^verbatim>\<open>monitor_control.py\<close> can raise.
  \<^verbatim>\<open>KeyError\<close> carries the missing key (a name for the string-keyed tables, an integer
  for the parser's position dictionaries), \<^verbatim>\<open>UnboundLocalError\<close> the name of the local
  variable read before assignment, and \<^verbatim>\<open>WinError\<close> is what \<^verbatim>\<open>ctypes.WinError()\<close>
  builds when a \<^verbatim>\<open>dxva2\<close> call reports failure.
\<close>

datatype error =
    KeyError string
  | KeyErrorInt int
  | UnboundLocalError string
  | IndexError
  | ZeroDivisionError
  | WinError

text \<open>
  \<^verbatim>\<open>str.isspace()\<close> on one character and the separators of \<^verbatim>\<open>str.split()\<close> are the same
  set. A \<^typ>\<open>char\<close> is one code point below 256 here; the whitespace code points in that
  range are 9 to 13, 28 to 32, 133 and 160.
\<close>

definition isspace :: "char \<Rightarrow> bool" where
  "isspace c = (c \<in> set [CHR 0x09, CHR 0x0A, CHR 0x0B, CHR 0x0C, CHR 0x0D,
                          CHR 0x1C, CHR 0x1D, CHR 0x1E, CHR 0x1F, CHR 0x20,
                          CHR 0x85, CHR 0xA0])"

text \<open>\<^verbatim>\<open>s.split()\<close>: the maximal runs of non-whitespace characters, in order.\<close>

fun split_aux :: "string \<Rightarrow> string \<Rightarrow> string list" where
  "split_aux [] cur = (if cur = [] then [] else [cur])"
| "split_aux (c # cs) cur =
     (if isspace c then (if cur = [] then split_aux cs [] else cur # split_aux cs [])
      else split_aux cs (cur @ [c]))"

definition py_split :: "string \<Rightarrow> string list" where
  "py_split s = split_aux s []"

text \<open>
  \<^verbatim>\<open>xs[a:b]\<close>: a negative bound counts from the end, and each bound is then clipped
  to the range from 0 to the length; an empty range gives the empty list.
\<close>

definition slice_bound :: "int \<Rightarrow> int \<Rightarrow> int" where
  "slice_bound n k = (if k < 0 then max 0 (k + n) else min k n)"

definition py_slice :: "'a list \<Rightarrow> int \<Rightarrow> int \<Rightarrow> 'a list" where
  "py_slice xs a b =
     (let n = int (length xs); lo = slice_bound n a; hi = slice_bound n b
      in take (nat (hi - lo)) (drop (nat lo) xs))"

text \<open>\<^verbatim>\<open>xs[k]\<close>: a negative index counts from the end; out of range raises.\<close>

definition py_index :: "'a list \<Rightarrow> int \<Rightarrow> error + 'a" where
  "py_index xs k =
     (let n = int (length xs); j = (if k < 0 then k + n else k)
      in if 0 \<le> j \<and> j < n then Inr (xs ! nat j) else Inl IndexError)"

text \<open>
  A \<^verbatim>\<open>for\<close> loop over a list whose body may raise: the state is threaded through the
  elements in order and the first exception ends the loop.
\<close>

fun for_loop :: "('a \<Rightarrow> 's \<Rightarrow> error + 's) \<Rightarrow> 'a list \<Rightarrow> 's \<Rightarrow> error + 's" where
  "for_loop body [] st = Inr st"
| "for_loop body (x # xs) st =
     (case body x st of Inl e \<Rightarrow> Inl e | Inr st' \<Rightarrow> for_loop body xs st')"

section \<open>The capabilities parser\<close>

subsection \<open>\<^verbatim>\<open>Display._parse_vcp_list\<close>\<close>

text \<open>
  The dictionary \<^verbatim>\<open>vcp_dict\<close> keeps insertion order, so it is an association list
  written with \<^const>\<open>AList.update\<close> (a new key goes to the end, an old key keeps its
  place). A value is \<^verbatim>\<open>None\<close> or the list of tokens of a sub-group. The local
  \<^verbatim>\<open>code\<close> is unbound until the first open parenthesis.
\<close>

record vcp_state =
  vcp_dict :: "(string \<times> string list option) list"
  vcp_open_p :: int
  code :: "string option"

definition vcp_init :: vcp_state where
  "vcp_init = \<lparr>vcp_dict = [], vcp_open_p = 0, code = None\<rparr>"

definition vcp_body :: "string \<Rightarrow> nat \<times> char \<Rightarrow> vcp_state \<Rightarrow> error + vcp_state" where
  "vcp_body vcp_list ic st =
     (let i = int (fst ic); chr = snd ic in
      if chr = CHR ''('' then
        Inr (st\<lparr>vcp_open_p := i, code := Some (py_slice vcp_list (i - 2) i)\<rparr>)
      else if chr = CHR '')'' then
        (case code st of
           None \<Rightarrow> Inl (UnboundLocalError ''code'')
         | Some c \<Rightarrow>
             Inr (st\<lparr>vcp_dict :=
               AList.update c (Some (py_split (py_slice vcp_list (vcp_open_p st + 1) i)))
                 (vcp_dict st)\<rparr>))
      else if isspace chr then
        (case py_index vcp_list (i - 1) of
           Inl e \<Rightarrow> Inl e
         | Inr prev \<Rightarrow>
             if prev \<noteq> CHR '')'' then
               Inr (st\<lparr>vcp_dict :=
                 AList.update (py_slice vcp_list (i - 2) i) None (vcp_dict st)\<rparr>)
             else Inr st)
      else Inr st)"

definition parse_vcp_list :: "string \<Rightarrow> error + (string \<times> string list option) list" where
  "parse_vcp_list vcp_list =
     (case for_loop (vcp_body vcp_list) (enumerate 0 vcp_list) vcp_init of
        Inl e \<Rightarrow> Inl e
      | Inr st \<Rightarrow> Inr (vcp_dict st))"

subsection \<open>\<^verbatim>\<open>Display.parse_capabilities_string\<close>\<close>

text \<open>
  A value of the capabilities dictionary: the raw body of a group, the token list of
  \<^verbatim>\<open>cmds\<close>, or the dictionary of \<^verbatim>\<open>vcp\<close>.
\<close>

datatype cap_value =
    Raw string
  | Tokens "string list"
  | Vcp "(string \<times> string list option) list"

record parse_state =
  level :: int
  capabilities :: "(string \<times> cap_value) list"
  open_p :: "int \<rightharpoonup> int"
  close_p :: "int \<rightharpoonup> int"
  ident :: "int \<rightharpoonup> string"

definition parse_init :: parse_state where
  "parse_init =
     \<lparr>level = 0, capabilities = [], open_p = Map.empty, close_p = [0 \<mapsto> 0],
      ident = Map.empty\<rparr>"

definition group_value :: "string \<Rightarrow> string \<Rightarrow> error + cap_value" where
  "group_value key values =
     (if key = ''cmds'' then Inr (Tokens (py_split values))
      else if key = ''vcp'' then
        (case parse_vcp_list values of Inl e \<Rightarrow> Inl e | Inr d \<Rightarrow> Inr (Vcp d))
      else Inr (Raw values))"

definition on_open :: "string \<Rightarrow> int \<Rightarrow> parse_state \<Rightarrow> error + parse_state" where
  "on_open capabilities_string i st =
     (if i = 0 then Inr (st\<lparr>close_p := (close_p st)(0 \<mapsto> 1)\<rparr>)
      else
        let st1 = st\<lparr>open_p := (open_p st)(level st \<mapsto> i)\<rparr> in
        if level st1 = 0 then
          (case close_p st1 0 of
             None \<Rightarrow> Inl (KeyErrorInt 0)
           | Some c \<Rightarrow>
               Inr (st1\<lparr>ident := (ident st1)(0 \<mapsto> py_slice capabilities_string (c + 1) i),
                        level := level st1 + 1\<rparr>))
        else Inr (st1\<lparr>level := level st1 + 1\<rparr>))"

definition on_close :: "string \<Rightarrow> int \<Rightarrow> parse_state \<Rightarrow> error + parse_state" where
  "on_close capabilities_string i st =
     (let st1 = st\<lparr>level := level st - 1\<rparr>;
          st2 = st1\<lparr>close_p := (close_p st1)(level st1 \<mapsto> i)\<rparr> in
      if level st2 = 0 then
        (case open_p st2 0 of
           None \<Rightarrow> Inl (KeyErrorInt 0)
         | Some p \<Rightarrow>
             (case ident st2 0 of
                None \<Rightarrow> Inl (KeyErrorInt 0)
              | Some key \<Rightarrow>
                  (case group_value key (py_slice capabilities_string (p + 1) i) of
                     Inl e \<Rightarrow> Inl e
                   | Inr v \<Rightarrow>
                       Inr (st2\<lparr>capabilities := AList.update key v (capabilities st2)\<rparr>))))
      else Inr st2)"

definition parse_body :: "string \<Rightarrow> nat \<times> char \<Rightarrow> parse_state \<Rightarrow> error + parse_state" where
  "parse_body capabilities_string ic st =
     (let i = int (fst ic); chr = snd ic in
      if chr = CHR ''('' then on_open capabilities_string i st
      else if chr = CHR '')'' then on_close capabilities_string i st
      else Inr st)"

definition parse_capabilities_string :: "string \<Rightarrow> error + (string \<times> cap_value) list" where
  "parse_capabilities_string capabilities_string =
     (case for_loop (parse_body capabilities_string) (enumerate 0 capabilities_string)
             parse_init of
        Inl e \<Rightarrow> Inl e
      | Inr st \<Rightarrow> Inr (capabilities st))"

definition canonical :: string where
  "canonical =
     ''(prot(monitor)type(lcd)model(U2713HM)cmds(01 02 03)vcp(02 04 14(01 04 05) 60(01 03 04 0F) AC)mccs_ver(2.1))''"


section \<open>The registry of VCP codes\<close>

text \<open>The dictionary \<^verbatim>\<open>vcp_codes\<close>, entry by entry in the order of the source.\<close>

definition vcp_codes :: "(string \<times> int) list" where
  "vcp_codes =
     [(''New Control Value'', 0x02),
      (''Restore Factory Defaults'', 0x04),
      (''Restore Factory Luminance/ Contrast Defaults'', 0x05),
      (''Restore Factory Geometry Defaults'', 0x06),
      (''Restore Factory Color Defaults'', 0x08),
      (''Luminance'', 0x10),
      (''Contrast'', 0x12),
      (''Select Color Preset'', 0x14),
      (''Video Gain (Drive): Red'', 0x16),
      (''Video Gain (Drive): Green'', 0x18),
      (''Video Gain (Drive): Blue'', 0x1A),
      (''Active Control'', 0x52),
      (''Input Source'', 0x60),
      (''Video Black Level: Red'', 0x16),
      (''Video Black Level: Green'', 0x18),
      (''Video Black Level: Blue'', 0x1A),
      (''Horizontal Frequency'', 0xAC),
      (''Vertical Frequency'', 0xAE),
      (''Flat Panel Sub-Pixel Layout'', 0xB2),
      (''Display Technology Type'', 0xB6),
      (''Application Enable Key'', 0xC6),
      (''Display Controller Type'', 0xC8),
      (''Display Firmware Level'', 0xC9),
      (''OSD'', 0xCA),
      (''Power Mode'', 0xD6),
      (''Display Application'', 0xDC),
      (''VCP Version'', 0xDF),
      (''Dell-E0'', 0xE0),
      (''Dell-E1'', 0xE1),
      (''Dell-E2'', 0xE2),
      (''Dell-F0'', 0xF0),
      (''Dell-F1'', 0xF1),
      (''Dell-F2'', 0xF2),
      (''Dell-FD'', 0xFD)]"

text \<open>\<^verbatim>\<open>d[k]\<close> on a dictionary with string keys: a missing key raises \<^verbatim>\<open>KeyError\<close>.\<close>

definition getitem :: "(string \<times> 'v) list \<Rightarrow> string \<Rightarrow> error + 'v" where
  "getitem d k = (case map_of d k of None \<Rightarrow> Inl (KeyError k) | Some v \<Rightarrow> Inr v)"

definition color_presets_i :: "(string \<times> int) list" where
  "color_presets_i =
     [(''srgb'', 0x01), (''5000k'', 0x04), (''6500k'', 0x05), (''7500k'', 0x06),
      (''9300k'', 0x08), (''10000k'', 0x09), (''5700k'', 0x0B), (''user'', 0x0C)]"

definition input_sources_i :: "(string \<times> int) list" where
  "input_sources_i = [(''vga'', 0x01), (''dvi'', 0x03), (''hdmi'', 0x04), (''dp'', 0x0F)]"

definition display_applications_i :: "(string \<times> int) list" where
  "display_applications_i = [(''std'', 0x00), (''mix'', 0x02), (''mov'', 0x03), (''gam'', 0x05)]"

definition power_mode_i :: "(string \<times> int) list" where
  "power_mode_i = [(''on'', 0x01), (''off'', 0x05)]"

section \<open>The display and its monitor\<close>

text \<open>
  The two \<^verbatim>\<open>dxva2\<close> entry points that the properties use are parameters of the model.
  \<^verbatim>\<open>GetVCPFeatureAndVCPFeatureReply\<close> takes the monitor behind the handle and a
  \<^verbatim>\<open>BYTE\<close> and answers with the two \<^verbatim>\<open>DWORD\<close>s (current, maximum);
  \<^verbatim>\<open>SetVCPFeature\<close> takes a \<^verbatim>\<open>BYTE\<close> and a \<^verbatim>\<open>DWORD\<close> and answers with the monitor
  after the write. \<^const>\<open>None\<close> is the false return value that makes the caller raise
  \<^verbatim>\<open>ctypes.WinError()\<close>.
\<close>

record 'd dxva2 =
  GetVCPFeatureAndVCPFeatureReply :: "'d \<Rightarrow> 8 word \<Rightarrow> (32 word \<times> 32 word) option"
  SetVCPFeature :: "'d \<Rightarrow> 8 word \<Rightarrow> 32 word \<Rightarrow> 'd option"

text \<open>
  Every call of \<^verbatim>\<open>_get_vcf_feature_and_vcf_feature_reply(code)\<close> and of
  \<^verbatim>\<open>_set_vcp_feature(code, value)\<close> is recorded, with its arguments, in the order
  of the calls, whether the monitor then answers or fails.
\<close>

datatype call = GetFeature int | SetFeature int int

record 'd world =
  device :: 'd
  calls :: "call list"

type_synonym ('d, 'a) io = "'d world \<Rightarrow> (error + 'a) \<times> 'd world"

definition io_return :: "'a \<Rightarrow> ('d, 'a) io" where
  "io_return x w = (Inr x, w)"

definition io_lift :: "error + 'a \<Rightarrow> ('d, 'a) io" where
  "io_lift r w = (r, w)"

definition io_bind :: "('d, 'a) io \<Rightarrow> ('a \<Rightarrow> ('d, 'b) io) \<Rightarrow> ('d, 'b) io" where
  "io_bind m f w = (case m w of (Inl e, w') \<Rightarrow> (Inl e, w') | (Inr x, w') \<Rightarrow> f x w')"

fun io_for :: "('a \<Rightarrow> ('d, unit) io) \<Rightarrow> 'a list \<Rightarrow> ('d, unit) io" where
  "io_for body [] w = (Inr (), w)"
| "io_for body (x # xs) w =
     (case body x w of (Inl e, w') \<Rightarrow> (Inl e, w') | (Inr u, w') \<Rightarrow> io_for body xs w')"

definition get_vcf_feature_and_vcf_feature_reply ::
    "'d dxva2 \<Rightarrow> int \<Rightarrow> ('d, int \<times> int) io" where
  "get_vcf_feature_and_vcf_feature_reply A c w =
     (let w' = w\<lparr>calls := calls w @ [GetFeature c]\<rparr> in
      case GetVCPFeatureAndVCPFeatureReply A (device w) (word_of_int c) of
        None \<Rightarrow> (Inl WinError, w')
      | Some r \<Rightarrow> (Inr (uint (fst r), uint (snd r)), w'))"

definition set_vcp_feature :: "'d dxva2 \<Rightarrow> int \<Rightarrow> int \<Rightarrow> ('d, unit) io" where
  "set_vcp_feature A c v w =
     (let w' = w\<lparr>calls := calls w @ [SetFeature c v]\<rparr> in
      case SetVCPFeature A (device w) (word_of_int c) (word_of_int v) of
        None \<Rightarrow> (Inl WinError, w')
      | Some d \<Rightarrow> (Inr (), w'\<lparr>device := d\<rparr>))"

text \<open>
  The three lines shared by the setters of the continuous features:
  \<^verbatim>\<open>if value > max: value = max\<close>, \<^verbatim>\<open>elif value < 0: value = 0\<close>.
\<close>

definition clamp :: "int \<Rightarrow> int \<Rightarrow> int" where
  "clamp v mx = (if v > mx then mx else if v < 0 then 0 else v)"

definition horizontal_frequency :: "'d dxva2 \<Rightarrow> ('d, real) io" where
  "horizontal_frequency A =
     io_bind (io_lift (getitem vcp_codes ''Horizontal Frequency'')) (\<lambda>c.
     io_bind (get_vcf_feature_and_vcf_feature_reply A c) (\<lambda>r.
       let v = fst r;
           v = (if v < 50000 then v OR 0x10000 else v)
       in io_return (real_of_int v / 1000)))"

definition brightness :: "'d dxva2 \<Rightarrow> ('d, int) io" where
  "brightness A =
     io_bind (io_lift (getitem vcp_codes ''Luminance'')) (\<lambda>c.
     io_bind (get_vcf_feature_and_vcf_feature_reply A c) (\<lambda>r. io_return (fst r)))"

definition brightness_set :: "'d dxva2 \<Rightarrow> int \<Rightarrow> ('d, unit) io" where
  "brightness_set A v =
     io_bind (io_lift (getitem vcp_codes ''Luminance'')) (\<lambda>c.
     io_bind (get_vcf_feature_and_vcf_feature_reply A c) (\<lambda>r.
       if v = fst r then io_return ()
       else
         io_bind (io_lift (getitem vcp_codes ''Luminance'')) (\<lambda>c'.
         set_vcp_feature A c' (clamp v (snd r)))))"

definition contrast :: "'d dxva2 \<Rightarrow> ('d, int) io" where
  "contrast A =
     io_bind (io_lift (getitem vcp_codes ''Contrast'')) (\<lambda>c.
     io_bind (get_vcf_feature_and_vcf_feature_reply A c) (\<lambda>r. io_return (fst r)))"

definition contrast_set :: "'d dxva2 \<Rightarrow> int \<Rightarrow> ('d, unit) io" where
  "contrast_set A v =
     io_bind (io_lift (getitem vcp_codes ''Contrast'')) (\<lambda>c.
     io_bind (get_vcf_feature_and_vcf_feature_reply A c) (\<lambda>r.
       if v = fst r then io_return ()
       else
         io_bind (io_lift (getitem vcp_codes ''Contrast'')) (\<lambda>c'.
         set_vcp_feature A c' (clamp v (snd r)))))"

text \<open>\<^verbatim>\<open>a // b\<close> raises on a zero divisor and rounds down otherwise.\<close>

definition floordiv :: "int \<Rightarrow> int \<Rightarrow> error + int" where
  "floordiv a b = (if b = 0 then Inl ZeroDivisionError else Inr (a div b))"

definition color_temperature :: "'d dxva2 \<Rightarrow> ('d, int) io" where
  "color_temperature A =
     io_bind (io_lift (getitem vcp_codes ''Color Temperature Request'')) (\<lambda>c.
     io_bind (get_vcf_feature_and_vcf_feature_reply A c) (\<lambda>r.
     io_bind (io_lift (getitem vcp_codes ''Color Temperature Increment'')) (\<lambda>c'.
     io_bind (get_vcf_feature_and_vcf_feature_reply A c') (\<lambda>r'.
       io_return (3000 + fst r' * fst r)))))"

definition color_temperature_set :: "'d dxva2 \<Rightarrow> int \<Rightarrow> ('d, unit) io" where
  "color_temperature_set A v =
     io_bind (io_lift (getitem vcp_codes ''Color Temperature Request'')) (\<lambda>c.
     io_bind (get_vcf_feature_and_vcf_feature_reply A c) (\<lambda>r.
     io_bind (io_lift (getitem vcp_codes ''Color Temperature Increment'')) (\<lambda>c'.
     io_bind (get_vcf_feature_and_vcf_feature_reply A c') (\<lambda>r'.
     io_bind (io_lift (floordiv (v - 3000) (fst r'))) (\<lambda>v'.
       if v' = fst r then io_return ()
       else
         io_bind (io_lift (getitem vcp_codes ''Color Temperature Request'')) (\<lambda>c''.
         set_vcp_feature A c'' (clamp v' (snd r))))))))"

text \<open>
  The setters of the four enumerated properties have one shape: the name is looked up in
  the property's table, then the monitor is read, and the code is written unless it is
  the current one.
\<close>

definition color_preset_set :: "'d dxva2 \<Rightarrow> string \<Rightarrow> ('d, unit) io" where
  "color_preset_set A name =
     io_bind (io_lift (getitem color_presets_i name)) (\<lambda>v.
     io_bind (io_lift (getitem vcp_codes ''Select Color Preset'')) (\<lambda>c.
     io_bind (get_vcf_feature_and_vcf_feature_reply A c) (\<lambda>r.
       if v = fst r then io_return ()
       else
         io_bind (io_lift (getitem vcp_codes ''Select Color Preset'')) (\<lambda>c'.
         set_vcp_feature A c' v))))"

definition input_source_set :: "'d dxva2 \<Rightarrow> string \<Rightarrow> ('d, unit) io" where
  "input_source_set A name =
     io_bind (io_lift (getitem input_sources_i name)) (\<lambda>v.
     io_bind (io_lift (getitem vcp_codes ''Input Source'')) (\<lambda>c.
     io_bind (get_vcf_feature_and_vcf_feature_reply A c) (\<lambda>r.
       if v = fst r then io_return ()
       else
         io_bind (io_lift (getitem vcp_codes ''Input Source'')) (\<lambda>c'.
         set_vcp_feature A c' v))))"

definition display_application_set :: "'d dxva2 \<Rightarrow> string \<Rightarrow> ('d, unit) io" where
  "display_application_set A name =
     io_bind (io_lift (getitem display_applications_i name)) (\<lambda>v.
     io_bind (io_lift (getitem vcp_codes ''Display Application'')) (\<lambda>c.
     io_bind (get_vcf_feature_and_vcf_feature_reply A c) (\<lambda>r.
       if v = fst r then io_return ()
       else
         io_bind (io_lift (getitem vcp_codes ''Display Application'')) (\<lambda>c'.
         set_vcp_feature A c' v))))"

definition power_mode_set :: "'d dxva2 \<Rightarrow> string \<Rightarrow> ('d, unit) io" where
  "power_mode_set A name =
     io_bind (io_lift (getitem power_mode_i name)) (\<lambda>v.
     io_bind (io_lift (getitem vcp_codes ''Power Mode'')) (\<lambda>c.
     io_bind (get_vcf_feature_and_vcf_feature_reply A c) (\<lambda>r.
       if v = fst r then io_return ()
       else
         io_bind (io_lift (getitem vcp_codes ''Power Mode'')) (\<lambda>c'.
         set_vcp_feature A c' v))))"

text \<open>
  The body of the loop of the \<^verbatim>\<open>rgb\<close> setter, for the pair \<^verbatim>\<open>(i, value)\<close> of
  \<^verbatim>\<open>enumerate(values)\<close>: \<^verbatim>\<open>color[i]\<close> raises for a fourth element, and the monitor is
  read before \<^verbatim>\<open>value in (-1, current)\<close> is tested.
\<close>

definition color :: "string list" where
  "color = [''Red'', ''Green'', ''Blue'']"

definition template_format :: "string \<Rightarrow> string" where
  "template_format name = ''Video Gain (Drive): '' @ name"

definition rgb_body :: "'d dxva2 \<Rightarrow> nat \<times> int \<Rightarrow> ('d, unit) io" where
  "rgb_body A iv =
     (let i = int (fst iv); v = snd iv in
      io_bind (io_lift (py_index color i)) (\<lambda>name.
        let vcp_name = template_format name in
        io_bind (io_lift (getitem vcp_codes vcp_name)) (\<lambda>c.
        io_bind (get_vcf_feature_and_vcf_feature_reply A c) (\<lambda>r.
          if v = -1 \<or> v = fst r then io_return ()
          else
            io_bind (io_lift (getitem vcp_codes vcp_name)) (\<lambda>c'.
            set_vcp_feature A c' (clamp v (snd r)))))))"

definition rgb_set :: "'d dxva2 \<Rightarrow> int list \<Rightarrow> ('d, unit) io" where
  "rgb_set A vs = io_for (rgb_body A) (enumerate 0 vs)"

subsection \<open>A monitor for the examples\<close>

text \<open>
  A monitor whose registers are a function from the code to the pair (current, maximum):
  a read returns the pair, a write replaces the current value, and neither ever fails.
\<close>

definition stub :: "(8 word \<Rightarrow> 32 word \<times> 32 word) dxva2" where
  "stub =
     \<lparr>GetVCPFeatureAndVCPFeatureReply = (\<lambda>d c. Some (d c)),
      SetVCPFeature = (\<lambda>d c v. Some (d(c := (v, snd (d c)))))\<rparr>"

definition registers :: "32 word \<Rightarrow> 32 word \<Rightarrow> 8 word \<Rightarrow> 32 word \<times> 32 word" where
  "registers cur mx c = (cur, mx)"

definition fresh :: "32 word \<Rightarrow> 32 word \<Rightarrow> (8 word \<Rightarrow> 32 word \<times> 32 word) world" where
  "fresh cur mx = \<lparr>device = registers cur mx, calls = []\<rparr>"

text \<open>The code of the \<^verbatim>\<open>i\<close>-th gain, for the statements about the \<^verbatim>\<open>rgb\<close> setter.\<close>

definition rgb_code :: "nat \<Rightarrow> int" where
  "rgb_code i = [0x16, 0x18, 0x1A] ! i"

text \<open>The code a recorded call is about.\<close>

fun call_code :: "call \<Rightarrow> int" where
  "call_code (GetFeature c) = c"
| "call_code (SetFeature c v) = c"

section \<open>The invariant of the parser's loop\<close>




section \<open>Properties of the parser\<close>

subsection \<open>Loops and slices\<close>








subsection \<open>The loop keeps its invariant and never raises\<close>













subsection \<open>The canonical capabilities string\<close>

lemma canonical_parse:
  "parse_capabilities_string canonical =
     Inr [(''rot'', Raw ''monitor''), (''type'', Raw ''lcd''), (''model'', Raw ''U2713HM''),
          (''cmds'', Tokens [''01'', ''02'', ''03'']),
          (''vcp'',
           Vcp [(''02'', None), (''04'', None), (''01'', None),
                (''14'', Some [''01'', ''04'', ''05'']), (''03'', None),
                (''60'', Some [''01'', ''03'', ''04'', ''0F''])]),
          (''mccs_ver'', Raw ''2.1'')]"
  by code_simp

text \<open>
  C1. On the canonical string the parser returns a document \<open>d\<close> with
  \<^verbatim>\<open>d["model"] == "U2713HM"\<close>, \<^verbatim>\<open>d["cmds"] == ["01","02","03"]\<close>, \<^verbatim>\<open>vcp["02"] is None\<close>,
  \<^verbatim>\<open>vcp["14"] == ["01","04","05"]\<close> and \<^verbatim>\<open>vcp["60"] == ["01","03","04","0F"]\<close>, but
  \<^verbatim>\<open>vcp["AC"]\<close> raises \<^verbatim>\<open>KeyError\<close>: the last code of the body is followed by no
  whitespace, and only whitespace makes \<^verbatim>\<open>_parse_vcp_list\<close> store a code without a
  sub-group.
\<close>

theorem canonical_vcp_lacks_AC:
  "\<exists>d vcp. parse_capabilities_string canonical = Inr d \<and>
     getitem d ''model'' = Inr (Raw ''U2713HM'') \<and>
     getitem d ''cmds'' = Inr (Tokens [''01'', ''02'', ''03'']) \<and>
     getitem d ''vcp'' = Inr (Vcp vcp) \<and>
     getitem vcp ''02'' = Inr None \<and>
     getitem vcp ''14'' = Inr (Some [''01'', ''04'', ''05'']) \<and>
     getitem vcp ''60'' = Inr (Some [''01'', ''03'', ''04'', ''0F'']) \<and>
     getitem vcp ''AC'' = Inl (KeyError ''AC'')"
  by (simp add: canonical_parse getitem_def)

text \<open>
  C2. On the canonical string the key of the first top-level group is stored as
  \<^verbatim>\<open>"rot"\<close>, not \<^verbatim>\<open>"prot"\<close>: the wrapper's open parenthesis sets \<^verbatim>\<open>close_p[0] = 1\<close>
  and the key is the slice from \<^verbatim>\<open>close_p[0] + 1\<close>, which is position 2. The keys of
  the later groups are whole.
\<close>

theorem canonical_first_key_loses_a_character:
  "\<exists>d. parse_capabilities_string canonical = Inr d \<and>
     getitem d ''prot'' = Inl (KeyError ''prot'') \<and>
     getitem d ''rot'' = Inr (Raw ''monitor'') \<and>
     map fst d = [''rot'', ''type'', ''model'', ''cmds'', ''vcp'', ''mccs_ver'']"
  by (simp add: canonical_parse getitem_def)

text \<open>
  C10. On the body \<^verbatim>\<open>14(01 04 05) AC\<close> the keys of the dictionary returned by
  \<^verbatim>\<open>_parse_vcp_list\<close> are \<^verbatim>\<open>01\<close>, \<^verbatim>\<open>04\<close> and \<^verbatim>\<open>14\<close>: the value tokens \<^verbatim>\<open>01\<close> and \<^verbatim>\<open>04\<close> of
  the sub-group, each followed by a space, are stored as codes of their own, and the
  code \<^verbatim>\<open>AC\<close> at the end of the body is not stored.
\<close>

theorem parse_vcp_list_keys_on_example:
  "parse_vcp_list ''14(01 04 05) AC'' =
     Inr [(''01'', None), (''04'', None), (''14'', Some [''01'', ''04'', ''05''])]"
  by code_simp

subsection \<open>Malformed input\<close>


subsection \<open>What follows the last close parenthesis\<close>















section \<open>Properties of the display\<close>

subsection \<open>Reading, writing and the registry\<close>

lemmas io_defs = io_bind_def io_lift_def io_return_def

lemma vcp_code_Luminance: "getitem vcp_codes ''Luminance'' = Inr 0x10"
  by (simp add: getitem_def vcp_codes_def)

lemma vcp_code_Contrast: "getitem vcp_codes ''Contrast'' = Inr 0x12"
  by (simp add: getitem_def vcp_codes_def)

lemma vcp_code_Horizontal: "getitem vcp_codes ''Horizontal Frequency'' = Inr 0xAC"
  by (simp add: getitem_def vcp_codes_def)

lemma vcp_code_Request:
  "getitem vcp_codes ''Color Temperature Request'' = Inl (KeyError ''Color Temperature Request'')"
  by (simp add: getitem_def vcp_codes_def)

lemma vcp_code_Increment:
  "getitem vcp_codes ''Color Temperature Increment'' =
     Inl (KeyError ''Color Temperature Increment'')"
  by (simp add: getitem_def vcp_codes_def)

lemma get_reply_Some:
  assumes "GetVCPFeatureAndVCPFeatureReply A (device w) (word_of_int c) = Some (cur, mx)"
  shows "get_vcf_feature_and_vcf_feature_reply A c w =
           (Inr (uint cur, uint mx), w\<lparr>calls := calls w @ [GetFeature c]\<rparr>)"
  using assms by (simp add: get_vcf_feature_and_vcf_feature_reply_def Let_def)

lemma get_reply_device:
  "device (snd (get_vcf_feature_and_vcf_feature_reply A c w)) = device w"
  by (simp add: get_vcf_feature_and_vcf_feature_reply_def Let_def split: option.splits)

lemma get_reply_cases:
  assumes "get_vcf_feature_and_vcf_feature_reply A c w = (Inr r, w')"
  shows "\<exists>cur mx. GetVCPFeatureAndVCPFeatureReply A (device w) (word_of_int c) = Some (cur, mx) \<and>
           r = (uint cur, uint mx) \<and> w' = w\<lparr>calls := calls w @ [GetFeature c]\<rparr>"
  using assms
  by (auto simp: get_vcf_feature_and_vcf_feature_reply_def Let_def split: option.splits)

lemma brightness_set_current:
  assumes "GetVCPFeatureAndVCPFeatureReply A (device w) 0x10 = Some (cur, mx)"
  shows "brightness_set A (uint cur) w = (Inr (), w\<lparr>calls := calls w @ [GetFeature 0x10]\<rparr>)"
  using assms
  by (simp add: brightness_set_def io_defs vcp_code_Luminance get_reply_Some)

lemma contrast_set_current:
  assumes "GetVCPFeatureAndVCPFeatureReply A (device w) 0x12 = Some (cur, mx)"
  shows "contrast_set A (uint cur) w = (Inr (), w\<lparr>calls := calls w @ [GetFeature 0x12]\<rparr>)"
  using assms
  by (simp add: contrast_set_def io_defs vcp_code_Contrast get_reply_Some)

text \<open>
  C5. For brightness and for contrast: when the getter has just returned \<open>v\<close>, the setter
  called with \<open>v\<close> reads the monitor once and returns; it makes no call of
  \<^verbatim>\<open>_set_vcp_feature\<close> and the monitor is as it was.
\<close>

theorem continuous_set_to_current_writes_nothing:
  "(brightness A w = (Inr v, w') \<longrightarrow>
      brightness_set A v w' = (Inr (), w'\<lparr>calls := calls w' @ [GetFeature 0x10]\<rparr>)) \<and>
   (contrast A w = (Inr v, w') \<longrightarrow>
      contrast_set A v w' = (Inr (), w'\<lparr>calls := calls w' @ [GetFeature 0x12]\<rparr>))"
proof (intro conjI impI)
  assume "brightness A w = (Inr v, w')"
  then obtain r where r: "get_vcf_feature_and_vcf_feature_reply A 0x10 w = (Inr r, w')"
    and v: "v = fst r"
    by (auto simp: brightness_def io_defs vcp_code_Luminance split: prod.splits sum.splits)
  from get_reply_cases [OF r] obtain cur mx where
    g: "GetVCPFeatureAndVCPFeatureReply A (device w) 0x10 = Some (cur, mx)"
    and r': "r = (uint cur, uint mx)" and w': "w' = w\<lparr>calls := calls w @ [GetFeature 0x10]\<rparr>"
    by auto
  from g w' have "GetVCPFeatureAndVCPFeatureReply A (device w') 0x10 = Some (cur, mx)"
    by simp
  from brightness_set_current [OF this] v r'
  show "brightness_set A v w' = (Inr (), w'\<lparr>calls := calls w' @ [GetFeature 0x10]\<rparr>)"
    by simp
next
  assume "contrast A w = (Inr v, w')"
  then obtain r where r: "get_vcf_feature_and_vcf_feature_reply A 0x12 w = (Inr r, w')"
    and v: "v = fst r"
    by (auto simp: contrast_def io_defs vcp_code_Contrast split: prod.splits sum.splits)
  from get_reply_cases [OF r] obtain cur mx where
    g: "GetVCPFeatureAndVCPFeatureReply A (device w) 0x12 = Some (cur, mx)"
    and r': "r = (uint cur, uint mx)" and w': "w' = w\<lparr>calls := calls w @ [GetFeature 0x12]\<rparr>"
    by auto
  from g w' have "GetVCPFeatureAndVCPFeatureReply A (device w') 0x12 = Some (cur, mx)"
    by simp
  from contrast_set_current [OF this] v r'
  show "contrast_set A v w' = (Inr (), w'\<lparr>calls := calls w' @ [GetFeature 0x12]\<rparr>)"
    by simp
qed

lemma stub_brightness:
  "brightness stub (fresh 40 100) = (Inr 40, (fresh 40 100)\<lparr>calls := [GetFeature 0x10]\<rparr>)"
  by (simp add: brightness_def io_defs vcp_code_Luminance
      get_vcf_feature_and_vcf_feature_reply_def Let_def stub_def fresh_def registers_def)

lemma stub_contrast:
  "contrast stub (fresh 40 100) = (Inr 40, (fresh 40 100)\<lparr>calls := [GetFeature 0x12]\<rparr>)"
  by (simp add: contrast_def io_defs vcp_code_Contrast
      get_vcf_feature_and_vcf_feature_reply_def Let_def stub_def fresh_def registers_def)

text \<open>The same on a monitor whose brightness and contrast are 40 of 100.\<close>

theorem continuous_set_to_current_witness:
  "brightness stub (fresh 40 100) = (Inr 40, (fresh 40 100)\<lparr>calls := [GetFeature 0x10]\<rparr>) \<and>
   brightness_set stub 40 ((fresh 40 100)\<lparr>calls := [GetFeature 0x10]\<rparr>) =
     (Inr (), (fresh 40 100)\<lparr>calls := [GetFeature 0x10, GetFeature 0x10]\<rparr>) \<and>
   contrast stub (fresh 40 100) = (Inr 40, (fresh 40 100)\<lparr>calls := [GetFeature 0x12]\<rparr>) \<and>
   contrast_set stub 40 ((fresh 40 100)\<lparr>calls := [GetFeature 0x12]\<rparr>) =
     (Inr (), (fresh 40 100)\<lparr>calls := [GetFeature 0x12, GetFeature 0x12]\<rparr>)"
  using continuous_set_to_current_writes_nothing
          [of stub "fresh 40 100" 40 "(fresh 40 100)\<lparr>calls := [GetFeature 0x10]\<rparr>"]
        continuous_set_to_current_writes_nothing
          [of stub "fresh 40 100" 40 "(fresh 40 100)\<lparr>calls := [GetFeature 0x12]\<rparr>"]
  by (simp add: stub_brightness stub_contrast)


lemma set_feature_calls:
  "calls (snd (set_vcp_feature A c v w)) = calls w @ [SetFeature c v]"
  by (simp add: set_vcp_feature_def Let_def split: option.splits)

lemma brightness_set_other:
  assumes "GetVCPFeatureAndVCPFeatureReply A (device w) 0x10 = Some (cur, mx)"
    and "v \<noteq> uint cur"
  shows "brightness_set A v w =
           set_vcp_feature A 0x10 (clamp v (uint mx)) (w\<lparr>calls := calls w @ [GetFeature 0x10]\<rparr>)"
  using assms
  by (simp add: brightness_set_def io_defs vcp_code_Luminance get_reply_Some)

lemma clamp_max_min:
  assumes "0 \<le> mx"
  shows "clamp v mx = max 0 (min v mx)"
  using assms by (simp add: clamp_def max_def min_def)

text \<open>
  C6. With a maximum of 100 and a current value other than 150, the brightness setter
  called with 150 makes one read and then one write, of the value 100; called with -10
  (which no current value equals, whatever the maximum) it makes one read and then one
  write, of the value 0. In general, a request \<open>v\<close> other than the current value makes
  one read and then one write, of \<open>v\<close> clamped into the range from 0 to the maximum.
\<close>

theorem brightness_set_clamps:
  "(GetVCPFeatureAndVCPFeatureReply A (device w) 0x10 = Some (cur, 100) \<and> uint cur \<noteq> 150 \<longrightarrow>
      calls (snd (brightness_set A 150 w)) =
        calls w @ [GetFeature 0x10, SetFeature 0x10 100]) \<and>
   (GetVCPFeatureAndVCPFeatureReply A (device w) 0x10 = Some (cur, mx) \<longrightarrow>
      calls (snd (brightness_set A (- 10) w)) =
        calls w @ [GetFeature 0x10, SetFeature 0x10 0]) \<and>
   (GetVCPFeatureAndVCPFeatureReply A (device w) 0x10 = Some (cur, mx) \<and> v \<noteq> uint cur \<longrightarrow>
      calls (snd (brightness_set A v w)) =
        calls w @ [GetFeature 0x10, SetFeature 0x10 (max 0 (min v (uint mx)))] \<and>
      0 \<le> max 0 (min v (uint mx)) \<and> max 0 (min v (uint mx)) \<le> uint mx)"
proof (intro conjI impI)
  assume "GetVCPFeatureAndVCPFeatureReply A (device w) 0x10 = Some (cur, 100) \<and> uint cur \<noteq> 150"
  then have g: "GetVCPFeatureAndVCPFeatureReply A (device w) 0x10 = Some (cur, 100)"
    and ne: "150 \<noteq> uint cur" by auto
  show "calls (snd (brightness_set A 150 w)) = calls w @ [GetFeature 0x10, SetFeature 0x10 100]"
    by (simp add: brightness_set_other [OF g ne] set_feature_calls clamp_def)
next
  assume g: "GetVCPFeatureAndVCPFeatureReply A (device w) 0x10 = Some (cur, mx)"
  have ne: "- 10 \<noteq> uint cur"
    using uint_ge_0 [of cur] by linarith
  have "\<not> uint mx < - 10"
    using uint_ge_0 [of mx] by linarith
  then have "clamp (- 10) (uint mx) = 0"
    by (simp add: clamp_def)
  then show "calls (snd (brightness_set A (- 10) w)) =
      calls w @ [GetFeature 0x10, SetFeature 0x10 0]"
    by (simp add: brightness_set_other [OF g ne] set_feature_calls)
next
  assume h: "GetVCPFeatureAndVCPFeatureReply A (device w) 0x10 = Some (cur, mx) \<and> v \<noteq> uint cur"
  then have g: "GetVCPFeatureAndVCPFeatureReply A (device w) 0x10 = Some (cur, mx)"
    and ne: "v \<noteq> uint cur" by auto
  have "clamp v (uint mx) = max 0 (min v (uint mx))"
    by (rule clamp_max_min) simp
  then show "calls (snd (brightness_set A v w)) =
        calls w @ [GetFeature 0x10, SetFeature 0x10 (max 0 (min v (uint mx)))]"
    by (simp add: brightness_set_other [OF g ne] set_feature_calls)
next
  show "0 \<le> max 0 (min v (uint mx))" by simp
next
  show "max 0 (min v (uint mx)) \<le> uint mx" by simp
qed

text \<open>The same on a monitor whose brightness is 50 of 100, with the request 70 as well.\<close>

theorem brightness_set_clamps_witness:
  "GetVCPFeatureAndVCPFeatureReply stub (device (fresh 50 100)) 0x10 = Some (50, 100) \<and>
   uint (50 :: 32 word) \<noteq> 150 \<and> (70 :: int) \<noteq> uint (50 :: 32 word) \<and>
   calls (snd (brightness_set stub 150 (fresh 50 100))) =
     [GetFeature 0x10, SetFeature 0x10 100] \<and>
   calls (snd (brightness_set stub (- 10) (fresh 50 100))) =
     [GetFeature 0x10, SetFeature 0x10 0] \<and>
   calls (snd (brightness_set stub 70 (fresh 50 100))) =
     [GetFeature 0x10, SetFeature 0x10 70]"
  using brightness_set_clamps
    [where A = stub and w = "fresh 50 100" and cur = 50 and mx = 100 and v = 70]
  by (simp add: stub_def fresh_def registers_def)


text \<open>
  C7. A name that is not in the table of an enumerated property (colour preset, input
  source, power mode, display application) makes the setter raise the \<^verbatim>\<open>KeyError\<close> of
  the table lookup, which is what the specification calls \<^verbatim>\<open>InvalidSettingName\<close>,
  before any call to the monitor: the world, and so the list of calls, is unchanged.
\<close>

theorem unknown_name_rejected_before_io:
  "(map_of color_presets_i name = None \<longrightarrow>
      color_preset_set A name w = (Inl (KeyError name), w)) \<and>
   (map_of input_sources_i name = None \<longrightarrow>
      input_source_set A name w = (Inl (KeyError name), w)) \<and>
   (map_of power_mode_i name = None \<longrightarrow>
      power_mode_set A name w = (Inl (KeyError name), w)) \<and>
   (map_of display_applications_i name = None \<longrightarrow>
      display_application_set A name w = (Inl (KeyError name), w))"
  by (simp add: color_preset_set_def input_source_set_def power_mode_set_def
      display_application_set_def io_defs getitem_def)

text \<open>The same for the name \<^verbatim>\<open>neon\<close>, which is in none of the four tables.\<close>

theorem unknown_name_rejected_witness:
  "map_of color_presets_i ''neon'' = None \<and>
   color_preset_set stub ''neon'' (fresh 1 12) = (Inl (KeyError ''neon''), fresh 1 12) \<and>
   map_of input_sources_i ''neon'' = None \<and>
   input_source_set stub ''neon'' (fresh 1 12) = (Inl (KeyError ''neon''), fresh 1 12) \<and>
   map_of power_mode_i ''neon'' = None \<and>
   power_mode_set stub ''neon'' (fresh 1 12) = (Inl (KeyError ''neon''), fresh 1 12) \<and>
   map_of display_applications_i ''neon'' = None \<and>
   display_application_set stub ''neon'' (fresh 1 12) = (Inl (KeyError ''neon''), fresh 1 12) \<and>
   calls (fresh 1 12) = []"
  using unknown_name_rejected_before_io [of "''neon''" stub "fresh 1 12"]
  by (simp add: color_presets_i_def input_sources_i_def power_mode_i_def
      display_applications_i_def fresh_def)

text \<open>
  C8. The getter of the horizontal frequency returns the raw value over 1000 when the
  raw value is at least 50000, and the raw value with the bit \<open>0x10000\<close> set, over 1000,
  when it is below; 40000 gives 105.536 and 60000 gives 60.0. The quotient is the exact
  one; Python's \<^verbatim>\<open>/\<close> returns the floating-point number nearest to it.
\<close>

theorem horizontal_frequency_decode:
  assumes "GetVCPFeatureAndVCPFeatureReply A (device w) 0xAC = Some (cur, mx)"
  shows "fst (horizontal_frequency A w) =
           Inr (if 50000 \<le> uint cur then real_of_int (uint cur) / 1000
                else real_of_int (uint cur OR 0x10000) / 1000) \<and>
         (cur = 40000 \<longrightarrow> fst (horizontal_frequency A w) = Inr 105.536) \<and>
         (cur = 60000 \<longrightarrow> fst (horizontal_frequency A w) = Inr 60.0)"
  using assms
  by (simp add: horizontal_frequency_def io_defs vcp_code_Horizontal get_reply_Some Let_def)

text \<open>The same on monitors that report 40000 and 60000.\<close>

theorem horizontal_frequency_witness:
  "GetVCPFeatureAndVCPFeatureReply stub (device (fresh 40000 0)) 0xAC = Some (40000, 0) \<and>
   fst (horizontal_frequency stub (fresh 40000 0)) = Inr 105.536 \<and>
   GetVCPFeatureAndVCPFeatureReply stub (device (fresh 60000 0)) 0xAC = Some (60000, 0) \<and>
   fst (horizontal_frequency stub (fresh 60000 0)) = Inr 60.0"
  using horizontal_frequency_decode [of stub "fresh 40000 0" 40000 0]
        horizontal_frequency_decode [of stub "fresh 60000 0" 60000 0]
  by (simp add: stub_def fresh_def registers_def)

text \<open>
  C9. \<^verbatim>\<open>vcp_codes\<close> has no entry \<^verbatim>\<open>Color Temperature Request\<close> and none
  \<^verbatim>\<open>Color Temperature Increment\<close>, so the getter and the setter of the colour
  temperature raise the \<^verbatim>\<open>KeyError\<close> of the first lookup on every call, before any
  call to the monitor.
\<close>

theorem color_temperature_fails_before_io:
  "getitem vcp_codes ''Color Temperature Request'' =
     Inl (KeyError ''Color Temperature Request'') \<and>
   getitem vcp_codes ''Color Temperature Increment'' =
     Inl (KeyError ''Color Temperature Increment'') \<and>
   color_temperature A w = (Inl (KeyError ''Color Temperature Request''), w) \<and>
   color_temperature_set A v w = (Inl (KeyError ''Color Temperature Request''), w)"
  by (simp add: color_temperature_def color_temperature_set_def io_defs
      vcp_code_Request vcp_code_Increment)


subsection \<open>The \<^verbatim>\<open>rgb\<close> setter\<close>

lemma rgb_code_cases:
  assumes "i < 3"
  shows "(i = 0 \<and> rgb_code i = 0x16) \<or> (i = 1 \<and> rgb_code i = 0x18) \<or>
         (i = 2 \<and> rgb_code i = 0x1A)"
proof -
  from assms consider "i = 0" | "i = 1" | "i = 2" by linarith
  then show ?thesis
  proof cases
    case 1 then show ?thesis by (simp add: rgb_code_def)
  next
    case 2 then show ?thesis by (simp add: rgb_code_def)
  next
    case 3 then show ?thesis by (simp add: rgb_code_def)
  qed
qed

lemma rgb_code_inj:
  assumes "i < 3" "j < 3" "rgb_code i = rgb_code j"
  shows "i = j"
  using rgb_code_cases [OF assms(1)] rgb_code_cases [OF assms(2)] assms(3)
  by auto

lemma py_index_color_out:
  assumes "3 \<le> i"
  shows "py_index color (int i) = Inl IndexError"
  using assms by (simp add: py_index_def color_def Let_def)

lemma rgb_body_out:
  assumes "3 \<le> i"
  shows "rgb_body A (i, v) w = (Inl IndexError, w)"
  by (simp add: rgb_body_def io_defs Let_def py_index_color_out [OF assms])


lemma rgb_name_code:
  assumes "i < 3"
  shows "\<exists>name. py_index color (int i) = Inr name \<and>
           getitem vcp_codes (template_format name) = Inr (rgb_code i)"
proof -
  from assms consider "i = 0" | "i = 1" | "i = 2" by linarith
  then show ?thesis
    by cases
      (simp_all add: py_index_def color_def template_format_def getitem_def vcp_codes_def
        rgb_code_def)
qed

lemma rgb_body_unfold:
  assumes "py_index color (int i) = Inr name"
    and "getitem vcp_codes (template_format name) = Inr c"
  shows "rgb_body A (i, v) w =
     (case get_vcf_feature_and_vcf_feature_reply A c w of
        (Inl e, w') \<Rightarrow> (Inl e, w')
      | (Inr r, w') \<Rightarrow>
          if v = - 1 \<or> v = fst r then (Inr (), w')
          else set_vcp_feature A c (clamp v (snd r)) w')"
proof -
  have "rgb_body A (i, v) w =
      io_bind (get_vcf_feature_and_vcf_feature_reply A c) (\<lambda>r.
          if v = - 1 \<or> v = fst r then io_return ()
          else
            io_bind (io_lift (getitem vcp_codes (template_format name))) (\<lambda>c'.
            set_vcp_feature A c' (clamp v (snd r)))) w"
    by (simp add: rgb_body_def Let_def assms io_bind_def [of "io_lift x" for x] io_lift_def)
  also have "\<dots> = (case get_vcf_feature_and_vcf_feature_reply A c w of
        (Inl e, w') \<Rightarrow> (Inl e, w')
      | (Inr r, w') \<Rightarrow>
          if v = - 1 \<or> v = fst r then (Inr (), w')
          else set_vcp_feature A c (clamp v (snd r)) w')"
    by (simp add: io_bind_def io_lift_def io_return_def assms(2) split: prod.splits sum.splits)
  finally show ?thesis .
qed


lemma get_reply_None:
  assumes "GetVCPFeatureAndVCPFeatureReply A (device w) (word_of_int c) = None"
  shows "get_vcf_feature_and_vcf_feature_reply A c w =
           (Inl WinError, w\<lparr>calls := calls w @ [GetFeature c]\<rparr>)"
  using assms by (simp add: get_vcf_feature_and_vcf_feature_reply_def Let_def)

lemma rgb_body_fail:
  assumes "i < 3"
    and "GetVCPFeatureAndVCPFeatureReply A (device w) (word_of_int (rgb_code i)) = None"
  shows "rgb_body A (i, v) w =
           (Inl WinError, w\<lparr>calls := calls w @ [GetFeature (rgb_code i)]\<rparr>)"
proof -
  from rgb_name_code [OF assms(1)] obtain name where
    n: "py_index color (int i) = Inr name"
    "getitem vcp_codes (template_format name) = Inr (rgb_code i)" by blast
  show ?thesis
    by (simp add: rgb_body_unfold [OF n] get_reply_None [OF assms(2)])
qed

lemma rgb_body_read:
  assumes "i < 3"
    and "GetVCPFeatureAndVCPFeatureReply A (device w) (word_of_int (rgb_code i)) = Some (cur, mx)"
  shows "rgb_body A (i, v) w =
           (if v = - 1 \<or> v = uint cur
            then (Inr (), w\<lparr>calls := calls w @ [GetFeature (rgb_code i)]\<rparr>)
            else set_vcp_feature A (rgb_code i) (clamp v (uint mx))
                   (w\<lparr>calls := calls w @ [GetFeature (rgb_code i)]\<rparr>))"
proof -
  from rgb_name_code [OF assms(1)] obtain name where
    n: "py_index color (int i) = Inr name"
    "getitem vcp_codes (template_format name) = Inr (rgb_code i)" by blast
  show ?thesis
    by (simp add: rgb_body_unfold [OF n] get_reply_Some [OF assms(2)])
qed

text \<open>The calls of one round of the loop.\<close>

lemma rgb_body_calls:
  "\<exists>evs. calls (snd (rgb_body A (j, v) w)) = calls w @ evs \<and>
     (\<forall>c x. SetFeature c x \<in> set evs \<longrightarrow> j < 3 \<and> c = rgb_code j \<and> v \<noteq> - 1) \<and>
     (fst (rgb_body A (j, v) w) = Inr () \<longrightarrow> GetFeature (rgb_code j) \<in> set evs)"
proof (cases "j < 3")
  case False
  then have "rgb_body A (j, v) w = (Inl IndexError, w)" by (simp add: rgb_body_out)
  then show ?thesis by simp
next
  case j: True
  show ?thesis
  proof (cases "GetVCPFeatureAndVCPFeatureReply A (device w) (word_of_int (rgb_code j))")
    case None
    from rgb_body_fail [OF j None] show ?thesis by simp
  next
    case (Some r)
    obtain cur mx where r: "r = (cur, mx)" by (cases r)
    show ?thesis
    proof (cases "v = - 1 \<or> v = uint cur")
      case True
      with rgb_body_read [OF j Some [unfolded r], of v] show ?thesis by auto
    next
      case False
      with rgb_body_read [OF j Some [unfolded r], of v]
      have eq: "rgb_body A (j, v) w = set_vcp_feature A (rgb_code j) (clamp v (uint mx))
                   (w\<lparr>calls := calls w @ [GetFeature (rgb_code j)]\<rparr>)" by simp
      have "calls (snd (rgb_body A (j, v) w)) =
              calls w @ [GetFeature (rgb_code j), SetFeature (rgb_code j) (clamp v (uint mx))]"
        by (simp add: eq set_feature_calls)
      with False j show ?thesis by auto
    qed
  qed
qed

lemma rgb_loop_calls:
  "\<exists>evs. calls (snd (io_for (rgb_body A) (enumerate n vs) w)) = calls w @ evs \<and>
     (\<forall>c x. SetFeature c x \<in> set evs \<longrightarrow>
        (\<exists>j. n \<le> j \<and> j < n + length vs \<and> j < 3 \<and> c = rgb_code j \<and> vs ! (j - n) \<noteq> - 1)) \<and>
     (fst (io_for (rgb_body A) (enumerate n vs) w) = Inr () \<longrightarrow>
        (\<forall>j. n \<le> j \<and> j < n + length vs \<longrightarrow> GetFeature (rgb_code j) \<in> set evs))"
proof (induction vs arbitrary: n w)
  case Nil
  then show ?case by simp
next
  case (Cons v vs)
  obtain r1 w1 where b: "rgb_body A (n, v) w = (r1, w1)" by (cases "rgb_body A (n, v) w")
  from rgb_body_calls [of A n v w] b obtain e1 where
    e1: "calls w1 = calls w @ e1"
    and s1: "\<forall>c x. SetFeature c x \<in> set e1 \<longrightarrow> n < 3 \<and> c = rgb_code n \<and> v \<noteq> - 1"
    and g1: "r1 = Inr () \<longrightarrow> GetFeature (rgb_code n) \<in> set e1"
    by auto
  show ?case
  proof (cases r1)
    case (Inl e)
    with b have run: "io_for (rgb_body A) (enumerate n (v # vs)) w = (Inl e, w1)" by simp
    have "\<forall>c x. SetFeature c x \<in> set e1 \<longrightarrow>
        (\<exists>j. n \<le> j \<and> j < n + length (v # vs) \<and> j < 3 \<and> c = rgb_code j \<and>
             (v # vs) ! (j - n) \<noteq> - 1)"
    proof (intro allI impI)
      fix c x assume "SetFeature c x \<in> set e1"
      with s1 have "n < 3 \<and> c = rgb_code n \<and> v \<noteq> - 1" by blast
      then show "\<exists>j. n \<le> j \<and> j < n + length (v # vs) \<and> j < 3 \<and> c = rgb_code j \<and>
             (v # vs) ! (j - n) \<noteq> - 1"
        by (intro exI [of _ n]) simp
    qed
    moreover have "calls (snd (io_for (rgb_body A) (enumerate n (v # vs)) w)) = calls w @ e1"
      unfolding run using e1 by simp
    moreover have "fst (io_for (rgb_body A) (enumerate n (v # vs)) w) \<noteq> Inr ()"
      unfolding run by simp
    ultimately show ?thesis by blast
  next
    case (Inr u)
    with b have run: "io_for (rgb_body A) (enumerate n (v # vs)) w =
        io_for (rgb_body A) (enumerate (Suc n) vs) w1" by simp
    from Cons.IH [of "Suc n" w1] obtain e2 where
      e2: "calls (snd (io_for (rgb_body A) (enumerate (Suc n) vs) w1)) = calls w1 @ e2"
      and s2: "\<forall>c x. SetFeature c x \<in> set e2 \<longrightarrow>
        (\<exists>j. Suc n \<le> j \<and> j < Suc n + length vs \<and> j < 3 \<and> c = rgb_code j \<and>
             vs ! (j - Suc n) \<noteq> - 1)"
      and g2: "fst (io_for (rgb_body A) (enumerate (Suc n) vs) w1) = Inr () \<longrightarrow>
        (\<forall>j. Suc n \<le> j \<and> j < Suc n + length vs \<longrightarrow> GetFeature (rgb_code j) \<in> set e2)"
      by blast
    have c: "calls (snd (io_for (rgb_body A) (enumerate n (v # vs)) w)) = calls w @ (e1 @ e2)"
      unfolding run using e2 e1 by simp
    have s: "\<forall>c x. SetFeature c x \<in> set (e1 @ e2) \<longrightarrow>
        (\<exists>j. n \<le> j \<and> j < n + length (v # vs) \<and> j < 3 \<and> c = rgb_code j \<and>
             (v # vs) ! (j - n) \<noteq> - 1)"
    proof (intro allI impI)
      fix c x assume "SetFeature c x \<in> set (e1 @ e2)"
      then consider "SetFeature c x \<in> set e1" | "SetFeature c x \<in> set e2" by auto
      then show "\<exists>j. n \<le> j \<and> j < n + length (v # vs) \<and> j < 3 \<and> c = rgb_code j \<and>
             (v # vs) ! (j - n) \<noteq> - 1"
      proof cases
        case 1
        with s1 have "n < 3 \<and> c = rgb_code n \<and> v \<noteq> - 1" by blast
        then show ?thesis by (intro exI [of _ n]) simp
      next
        case 2
        with s2 obtain j where j: "Suc n \<le> j" "j < Suc n + length vs" "j < 3" "c = rgb_code j"
          "vs ! (j - Suc n) \<noteq> - 1" by blast
        from j(1) have "(v # vs) ! (j - n) = vs ! (j - Suc n)"
          by (simp add: Suc_diff_le)
        with j show ?thesis by (intro exI [of _ j]) simp
      qed
    qed
    have g: "fst (io_for (rgb_body A) (enumerate n (v # vs)) w) = Inr () \<longrightarrow>
        (\<forall>j. n \<le> j \<and> j < n + length (v # vs) \<longrightarrow> GetFeature (rgb_code j) \<in> set (e1 @ e2))"
    proof (intro impI allI)
      fix j assume ok: "fst (io_for (rgb_body A) (enumerate n (v # vs)) w) = Inr ()"
        and j: "n \<le> j \<and> j < n + length (v # vs)"
      show "GetFeature (rgb_code j) \<in> set (e1 @ e2)"
      proof (cases "j = n")
        case True
        with g1 Inr show ?thesis by simp
      next
        case False
        with j have "Suc n \<le> j \<and> j < Suc n + length vs" by simp
        moreover from ok have "fst (io_for (rgb_body A) (enumerate (Suc n) vs) w1) = Inr ()"
          unfolding run .
        ultimately show ?thesis using g2 by simp
      qed
    qed
    from c s g show ?thesis by blast
  qed
qed

subsection \<open>The calls of one channel in a whole run\<close>

lemma io_for_append:
  "io_for body (xs @ ys) w =
     (case io_for body xs w of (Inl e, w') \<Rightarrow> (Inl e, w') | (Inr u, w') \<Rightarrow> io_for body ys w')"
  by (induction xs arbitrary: w) (auto split: prod.splits sum.splits)

text \<open>The calls of the round for channel \<open>i\<close>, from the monitor's reply to its read.\<close>

lemma rgb_round_calls:
  assumes "i < 3"
  shows "calls (snd (rgb_body A (i, v) w)) =
           calls w @ GetFeature (rgb_code i) #
             (case GetVCPFeatureAndVCPFeatureReply A (device w) (word_of_int (rgb_code i)) of
                None \<Rightarrow> []
              | Some r \<Rightarrow>
                  if v = - 1 \<or> v = uint (fst r) then []
                  else [SetFeature (rgb_code i) (max 0 (min v (uint (snd r))))])"
proof (cases "GetVCPFeatureAndVCPFeatureReply A (device w) (word_of_int (rgb_code i))")
  case None
  with rgb_body_fail [OF assms None, of v] show ?thesis by simp
next
  case (Some r)
  obtain cur mx where r: "r = (cur, mx)" by (cases r)
  have cl: "clamp v (uint mx) = max 0 (min v (uint mx))"
    by (rule clamp_max_min) simp
  from rgb_body_read [OF assms Some [unfolded r], of v] show ?thesis
    by (simp add: Some r set_feature_calls cl)
qed

lemma rgb_body_codes:
  "\<exists>evs. calls (snd (rgb_body A (j, v) w)) = calls w @ evs \<and>
     (\<forall>e \<in> set evs. j < 3 \<and> call_code e = rgb_code j)"
proof (cases "j < 3")
  case False
  then have "rgb_body A (j, v) w = (Inl IndexError, w)" by (simp add: rgb_body_out)
  then show ?thesis by simp
next
  case True
  from rgb_round_calls [OF True, of A v w] True show ?thesis
    by (auto split: option.splits if_splits)
qed

lemma rgb_loop_codes:
  "\<exists>evs. calls (snd (io_for (rgb_body A) (enumerate n vs) w)) = calls w @ evs \<and>
     (\<forall>e \<in> set evs. \<exists>j. n \<le> j \<and> j < n + length vs \<and> j < 3 \<and> call_code e = rgb_code j)"
proof (induction vs arbitrary: n w)
  case Nil
  then show ?case by simp
next
  case (Cons v vs)
  obtain r1 w1 where b: "rgb_body A (n, v) w = (r1, w1)" by (cases "rgb_body A (n, v) w")
  from rgb_body_codes [of A n v w] b obtain e1 where
    e1: "calls w1 = calls w @ e1"
    and c1: "\<forall>e \<in> set e1. n < 3 \<and> call_code e = rgb_code n"
    by auto
  have c1': "\<forall>e \<in> set e1. \<exists>j. n \<le> j \<and> j < n + length (v # vs) \<and> j < 3 \<and>
      call_code e = rgb_code j"
  proof
    fix e assume "e \<in> set e1"
    with c1 have "n < 3 \<and> call_code e = rgb_code n" by blast
    then show "\<exists>j. n \<le> j \<and> j < n + length (v # vs) \<and> j < 3 \<and> call_code e = rgb_code j"
      by (intro exI [of _ n]) simp
  qed
  show ?case
  proof (cases r1)
    case (Inl e)
    with b have run: "io_for (rgb_body A) (enumerate n (v # vs)) w = (Inl e, w1)" by simp
    have "calls (snd (io_for (rgb_body A) (enumerate n (v # vs)) w)) = calls w @ e1"
      unfolding run using e1 by simp
    with c1' show ?thesis by blast
  next
    case (Inr u)
    with b have run: "io_for (rgb_body A) (enumerate n (v # vs)) w =
        io_for (rgb_body A) (enumerate (Suc n) vs) w1" by simp
    from Cons.IH [of "Suc n" w1] obtain e2 where
      e2: "calls (snd (io_for (rgb_body A) (enumerate (Suc n) vs) w1)) = calls w1 @ e2"
      and c2: "\<forall>e \<in> set e2. \<exists>j. Suc n \<le> j \<and> j < Suc n + length vs \<and> j < 3 \<and>
        call_code e = rgb_code j"
      by blast
    have c: "calls (snd (io_for (rgb_body A) (enumerate n (v # vs)) w)) = calls w @ (e1 @ e2)"
      unfolding run using e2 e1 by simp
    have "\<forall>e \<in> set (e1 @ e2). \<exists>j. n \<le> j \<and> j < n + length (v # vs) \<and> j < 3 \<and>
        call_code e = rgb_code j"
    proof
      fix e assume "e \<in> set (e1 @ e2)"
      then consider "e \<in> set e1" | "e \<in> set e2" by auto
      then show "\<exists>j. n \<le> j \<and> j < n + length (v # vs) \<and> j < 3 \<and> call_code e = rgb_code j"
      proof cases
        case 1
        with c1' show ?thesis by blast
      next
        case 2
        with c2 obtain j where "Suc n \<le> j" "j < Suc n + length vs" "j < 3"
          "call_code e = rgb_code j" by blast
        then show ?thesis by (intro exI [of _ j]) simp
      qed
    qed
    with c show ?thesis by blast
  qed
qed

lemma rgb_code_absent:
  assumes i: "i < 3"
    and codes: "\<forall>e \<in> set evs. \<exists>j. j \<noteq> i \<and> j < 3 \<and> call_code e = rgb_code j"
  shows "GetFeature (rgb_code i) \<notin> set evs \<and> (\<forall>x. SetFeature (rgb_code i) x \<notin> set evs)"
proof -
  have "call_code e \<noteq> rgb_code i" if "e \<in> set evs" for e
  proof -
    from codes that obtain j where j: "j \<noteq> i" "j < 3" "call_code e = rgb_code j" by blast
    with i rgb_code_inj [of i j] show ?thesis by auto
  qed
  then show ?thesis by force
qed

lemma rgb_set_round:
  assumes len: "i < length vs" and i: "i < 3"
    and before: "fst (rgb_set A (take i vs) w) = Inr ()"
  shows "\<exists>pre post.
     calls (snd (rgb_set A (take i vs) w)) = calls w @ pre \<and>
     calls (snd (rgb_set A vs w)) =
       calls w @ pre @
         (GetFeature (rgb_code i) #
           (case GetVCPFeatureAndVCPFeatureReply A (device (snd (rgb_set A (take i vs) w)))
                   (word_of_int (rgb_code i)) of
              None \<Rightarrow> []
            | Some r \<Rightarrow>
                if vs ! i = - 1 \<or> vs ! i = uint (fst r) then []
                else [SetFeature (rgb_code i) (max 0 (min (vs ! i) (uint (snd r))))])) @ post \<and>
     GetFeature (rgb_code i) \<notin> set (pre @ post) \<and>
     (\<forall>x. SetFeature (rgb_code i) x \<notin> set (pre @ post))"
proof -
  define wi where "wi = snd (rgb_set A (take i vs) w)"
  define round where "round = GetFeature (rgb_code i) #
           (case GetVCPFeatureAndVCPFeatureReply A (device wi) (word_of_int (rgb_code i)) of
              None \<Rightarrow> []
            | Some r \<Rightarrow>
                if vs ! i = - 1 \<or> vs ! i = uint (fst r) then []
                else [SetFeature (rgb_code i) (max 0 (min (vs ! i) (uint (snd r))))])"
  have pre_run: "io_for (rgb_body A) (enumerate 0 (take i vs)) w = (Inr (), wi)"
    using before by (simp add: rgb_set_def wi_def prod_eq_iff)
  from rgb_loop_codes [of A 0 "take i vs" w] len obtain pre where
    pre: "calls wi = calls w @ pre"
    and pre_codes: "\<forall>e \<in> set pre. \<exists>j. j < i \<and> j < 3 \<and> call_code e = rgb_code j"
    by (auto simp: pre_run)
  have split: "enumerate 0 vs =
      enumerate 0 (take i vs) @ (i, vs ! i) # enumerate (Suc i) (drop (Suc i) vs)"
  proof -
    have "vs = take i vs @ vs ! i # drop (Suc i) vs"
      using len by (simp add: id_take_nth_drop)
    then have "enumerate 0 vs = enumerate 0 (take i vs @ vs ! i # drop (Suc i) vs)"
      by simp
    also have "\<dots> = enumerate 0 (take i vs) @ (i, vs ! i) # enumerate (Suc i) (drop (Suc i) vs)"
      using len by (simp add: enumerate_append_eq)
    finally show ?thesis .
  qed
  obtain r1 w1 where b: "rgb_body A (i, vs ! i) wi = (r1, w1)"
    by (cases "rgb_body A (i, vs ! i) wi")
  from rgb_round_calls [OF i, of A "vs ! i" wi] b
  have w1: "calls w1 = calls wi @ round" by (simp add: round_def)
  have "\<exists>post. calls (snd (rgb_set A vs w)) = calls w1 @ post \<and>
      (\<forall>e \<in> set post. \<exists>j. i < j \<and> j < 3 \<and> call_code e = rgb_code j)"
  proof (cases r1)
    case (Inl e)
    have "rgb_set A vs w = (Inl e, w1)"
      unfolding rgb_set_def split io_for_append pre_run using b Inl by simp
    then show ?thesis by simp
  next
    case (Inr u)
    have run: "rgb_set A vs w = io_for (rgb_body A) (enumerate (Suc i) (drop (Suc i) vs)) w1"
      unfolding rgb_set_def split io_for_append pre_run using b Inr by simp
    from rgb_loop_codes [of A "Suc i" "drop (Suc i) vs" w1] obtain post where
      p1: "calls (snd (io_for (rgb_body A) (enumerate (Suc i) (drop (Suc i) vs)) w1)) =
         calls w1 @ post"
      and p2: "\<forall>e \<in> set post. \<exists>j. Suc i \<le> j \<and> j < Suc i + length (drop (Suc i) vs) \<and>
         j < 3 \<and> call_code e = rgb_code j"
      by blast
    have "\<forall>e \<in> set post. \<exists>j. i < j \<and> j < 3 \<and> call_code e = rgb_code j"
    proof
      fix e assume "e \<in> set post"
      with p2 obtain j where "Suc i \<le> j" "j < 3" "call_code e = rgb_code j" by blast
      then show "\<exists>j. i < j \<and> j < 3 \<and> call_code e = rgb_code j"
        by (intro exI [of _ j]) simp
    qed
    with p1 show ?thesis unfolding run by blast
  qed
  then obtain post where post: "calls (snd (rgb_set A vs w)) = calls w1 @ post"
    and post_codes: "\<forall>e \<in> set post. \<exists>j. i < j \<and> j < 3 \<and> call_code e = rgb_code j"
    by blast
  have "\<forall>e \<in> set (pre @ post). \<exists>j. j \<noteq> i \<and> j < 3 \<and> call_code e = rgb_code j"
  proof
    fix e assume "e \<in> set (pre @ post)"
    then consider "e \<in> set pre" | "e \<in> set post" by auto
    then show "\<exists>j. j \<noteq> i \<and> j < 3 \<and> call_code e = rgb_code j"
    proof cases
      case 1
      with pre_codes obtain j where "j < i" "j < 3" "call_code e = rgb_code j" by blast
      then show ?thesis by (intro exI [of _ j]) simp
    next
      case 2
      with post_codes obtain j where "i < j" "j < 3" "call_code e = rgb_code j" by blast
      then show ?thesis by (intro exI [of _ j]) simp
    qed
  qed
  from rgb_code_absent [OF i this]
  have absent: "GetFeature (rgb_code i) \<notin> set (pre @ post)"
    "\<forall>x. SetFeature (rgb_code i) x \<notin> set (pre @ post)" by simp_all
  have "calls (snd (rgb_set A vs w)) = calls w @ pre @ round @ post"
    by (simp add: post w1 pre)
  with pre absent show ?thesis
    unfolding wi_def [symmetric] round_def [symmetric] by blast
qed


text \<open>
  C3, amended. For a component -1 of the list given to the \<^verbatim>\<open>rgb\<close> setter no write is
  made for that channel, but its read is made: among the calls the setter adds there is
  no \<^verbatim>\<open>_set_vcp_feature\<close> with the code of that channel. For every channel that the loop
  reaches (the rounds before it completed), the calls of the whole run with the code of
  that channel are the ones of its round: the read, and after it, when the read
  succeeds and the value is neither -1 nor the current one, one write of the value
  clamped into the range from 0 to the maximum. The last part says the same of one
  round alone.
\<close>

theorem rgb_set_sentinel_skips_only_the_write:
  "(i < length vs \<and> i < 3 \<and> vs ! i = - 1 \<longrightarrow>
      (\<exists>evs. calls (snd (rgb_set A vs w)) = calls w @ evs \<and>
         (\<forall>x. SetFeature (rgb_code i) x \<notin> set evs) \<and>
         (fst (rgb_set A vs w) = Inr () \<longrightarrow> GetFeature (rgb_code i) \<in> set evs))) \<and>
   (i < length vs \<and> i < 3 \<and> fst (rgb_set A (take i vs) w) = Inr () \<longrightarrow>
      (\<exists>pre post.
         calls (snd (rgb_set A (take i vs) w)) = calls w @ pre \<and>
         calls (snd (rgb_set A vs w)) =
           calls w @ pre @
             (GetFeature (rgb_code i) #
               (case GetVCPFeatureAndVCPFeatureReply A (device (snd (rgb_set A (take i vs) w)))
                       (word_of_int (rgb_code i)) of
                  None \<Rightarrow> []
                | Some r \<Rightarrow>
                    if vs ! i = - 1 \<or> vs ! i = uint (fst r) then []
                    else [SetFeature (rgb_code i)
                            (max 0 (min (vs ! i) (uint (snd r))))])) @ post \<and>
         GetFeature (rgb_code i) \<notin> set (pre @ post) \<and>
         (\<forall>x. SetFeature (rgb_code i) x \<notin> set (pre @ post)))) \<and>
   (i < 3 \<and> v \<noteq> - 1 \<and>
    GetVCPFeatureAndVCPFeatureReply A (device w) (word_of_int (rgb_code i)) = Some (cur, mx) \<longrightarrow>
      rgb_body A (i, v) w =
        (if v = uint cur then (Inr (), w\<lparr>calls := calls w @ [GetFeature (rgb_code i)]\<rparr>)
         else set_vcp_feature A (rgb_code i) (clamp v (uint mx))
                (w\<lparr>calls := calls w @ [GetFeature (rgb_code i)]\<rparr>)) \<and>
      (v \<noteq> uint cur \<longrightarrow>
         calls (snd (rgb_body A (i, v) w)) =
           calls w @ [GetFeature (rgb_code i), SetFeature (rgb_code i) (clamp v (uint mx))]) \<and>
      0 \<le> clamp v (uint mx) \<and> clamp v (uint mx) \<le> uint mx)"
proof (intro conjI impI)
  assume h: "i < length vs \<and> i < 3 \<and> vs ! i = - 1"
  from rgb_loop_calls [of A 0 vs w] obtain evs where
    c: "calls (snd (rgb_set A vs w)) = calls w @ evs"
    and s: "\<forall>c x. SetFeature c x \<in> set evs \<longrightarrow>
        (\<exists>j. j < length vs \<and> j < 3 \<and> c = rgb_code j \<and> vs ! j \<noteq> - 1)"
    and g: "fst (rgb_set A vs w) = Inr () \<longrightarrow>
        (\<forall>j. j < length vs \<longrightarrow> GetFeature (rgb_code j) \<in> set evs)"
    unfolding rgb_set_def by auto
  have "\<forall>x. SetFeature (rgb_code i) x \<notin> set evs"
  proof (intro allI notI)
    fix x assume "SetFeature (rgb_code i) x \<in> set evs"
    with s obtain j where j: "j < 3" "rgb_code i = rgb_code j" "vs ! j \<noteq> - 1" by blast
    from h j(1,2) have "i = j" by (intro rgb_code_inj) simp_all
    with j(3) h show False by simp
  qed
  moreover from g h have "fst (rgb_set A vs w) = Inr () \<longrightarrow> GetFeature (rgb_code i) \<in> set evs"
    by simp
  ultimately show "\<exists>evs. calls (snd (rgb_set A vs w)) = calls w @ evs \<and>
         (\<forall>x. SetFeature (rgb_code i) x \<notin> set evs) \<and>
         (fst (rgb_set A vs w) = Inr () \<longrightarrow> GetFeature (rgb_code i) \<in> set evs)"
    using c by blast
next
  assume "i < length vs \<and> i < 3 \<and> fst (rgb_set A (take i vs) w) = Inr ()"
  then have "i < length vs" "i < 3" "fst (rgb_set A (take i vs) w) = Inr ()" by simp_all
  then show "\<exists>pre post.
         calls (snd (rgb_set A (take i vs) w)) = calls w @ pre \<and>
         calls (snd (rgb_set A vs w)) =
           calls w @ pre @
             (GetFeature (rgb_code i) #
               (case GetVCPFeatureAndVCPFeatureReply A (device (snd (rgb_set A (take i vs) w)))
                       (word_of_int (rgb_code i)) of
                  None \<Rightarrow> []
                | Some r \<Rightarrow>
                    if vs ! i = - 1 \<or> vs ! i = uint (fst r) then []
                    else [SetFeature (rgb_code i)
                            (max 0 (min (vs ! i) (uint (snd r))))])) @ post \<and>
         GetFeature (rgb_code i) \<notin> set (pre @ post) \<and>
         (\<forall>x. SetFeature (rgb_code i) x \<notin> set (pre @ post))"
    by (rule rgb_set_round)
next
  assume h: "i < 3 \<and> v \<noteq> - 1 \<and>
    GetVCPFeatureAndVCPFeatureReply A (device w) (word_of_int (rgb_code i)) = Some (cur, mx)"
  then have i: "i < 3" and v: "v \<noteq> - 1"
    and r: "GetVCPFeatureAndVCPFeatureReply A (device w) (word_of_int (rgb_code i)) = Some (cur, mx)"
    by simp_all
  from rgb_body_read [OF i r, of v] v
  show eq: "rgb_body A (i, v) w =
        (if v = uint cur then (Inr (), w\<lparr>calls := calls w @ [GetFeature (rgb_code i)]\<rparr>)
         else set_vcp_feature A (rgb_code i) (clamp v (uint mx))
                (w\<lparr>calls := calls w @ [GetFeature (rgb_code i)]\<rparr>))"
    by simp
  show "calls (snd (rgb_body A (i, v) w)) =
           calls w @ [GetFeature (rgb_code i), SetFeature (rgb_code i) (clamp v (uint mx))]"
    if "v \<noteq> uint cur"
    using that by (simp add: eq set_feature_calls)
  show "0 \<le> clamp v (uint mx)"
    using uint_ge_0 [of mx] by (simp add: clamp_def)
  show "clamp v (uint mx) \<le> uint mx"
    using uint_ge_0 [of mx] by (simp add: clamp_def)
qed

text \<open>
  C3, as stated, fails: with -1 for all three channels the setter still reads each of
  them.
\<close>

theorem rgb_set_sentinel_still_reads:
  "calls (snd (rgb_set stub [- 1, - 1, - 1] (fresh 50 100))) =
     [GetFeature 0x16, GetFeature 0x18, GetFeature 0x1A]"
  by code_simp


text \<open>
  The amended statement on a monitor whose gains are 50 of 100, for the channel 0 with
  the value -1 and for the channel 2 with the value 120.
\<close>

theorem rgb_set_sentinel_witness:
  "0 < length [- 1, 30, 120 :: int] \<and> (0 :: nat) < 3 \<and> [- 1, 30, 120 :: int] ! 0 = - 1 \<and>
   fst (rgb_set stub [- 1, 30, 120] (fresh 50 100)) = Inr () \<and>
   (\<exists>evs. calls (snd (rgb_set stub [- 1, 30, 120] (fresh 50 100))) =
             calls (fresh 50 100) @ evs \<and>
          (\<forall>x. SetFeature (rgb_code 0) x \<notin> set evs) \<and>
          GetFeature (rgb_code 0) \<in> set evs) \<and>
   (120 :: int) \<noteq> - 1 \<and>
   GetVCPFeatureAndVCPFeatureReply stub (device (fresh 50 100)) (word_of_int (rgb_code 0)) =
     Some (50, 100) \<and>
   calls (snd (rgb_body stub (0, 120) (fresh 50 100))) =
     calls (fresh 50 100) @ [GetFeature (rgb_code 0), SetFeature (rgb_code 0) 100] \<and>
   2 < length [- 1, 30, 120 :: int] \<and> (2 :: nat) < 3 \<and>
   fst (rgb_set stub [- 1, 30] (fresh 50 100)) = Inr () \<and>
   (\<exists>pre post.
      calls (snd (rgb_set stub [- 1, 30] (fresh 50 100))) =
        calls (fresh 50 100) @ pre \<and>
      calls (snd (rgb_set stub [- 1, 30, 120] (fresh 50 100))) =
        calls (fresh 50 100) @ pre @ [GetFeature (rgb_code 2), SetFeature (rgb_code 2) 100] @ post \<and>
      GetFeature (rgb_code 2) \<notin> set (pre @ post) \<and>
      (\<forall>x. SetFeature (rgb_code 2) x \<notin> set (pre @ post)))"
proof -
  have run: "fst (rgb_set stub [- 1, 30, 120] (fresh 50 100)) = Inr ()"
    by code_simp
  have get: "GetVCPFeatureAndVCPFeatureReply stub (device (fresh 50 100))
      (word_of_int (rgb_code 0)) = Some (50, 100)"
    by (simp add: stub_def fresh_def registers_def)
  have cl: "clamp 120 (uint (100 :: 32 word)) = 100"
    by (simp add: clamp_def)
  have first: "0 < length [- 1, 30, 120 :: int] \<and> (0 :: nat) < 3 \<and>
   [- 1, 30, 120 :: int] ! 0 = - 1 \<and>
   fst (rgb_set stub [- 1, 30, 120] (fresh 50 100)) = Inr () \<and>
   (\<exists>evs. calls (snd (rgb_set stub [- 1, 30, 120] (fresh 50 100))) =
             calls (fresh 50 100) @ evs \<and>
          (\<forall>x. SetFeature (rgb_code 0) x \<notin> set evs) \<and>
          GetFeature (rgb_code 0) \<in> set evs) \<and>
   (120 :: int) \<noteq> - 1 \<and>
   GetVCPFeatureAndVCPFeatureReply stub (device (fresh 50 100)) (word_of_int (rgb_code 0)) =
     Some (50, 100) \<and>
   calls (snd (rgb_body stub (0, 120) (fresh 50 100))) =
     calls (fresh 50 100) @ [GetFeature (rgb_code 0), SetFeature (rgb_code 0) 100]"
    using rgb_set_sentinel_skips_only_the_write [of 0 "[- 1, 30, 120]" stub "fresh 50 100" 120 50 100]
    by (simp add: run get cl clamp_def set_feature_calls)
  have run2: "fst (rgb_set stub [- 1, 30] (fresh 50 100)) = Inr ()"
    by code_simp
  have get2: "GetVCPFeatureAndVCPFeatureReply stub
      (device (snd (rgb_set stub [- 1, 30] (fresh 50 100))))
      (word_of_int (rgb_code 2)) = Some (50, 100)"
    by code_simp
  have third: "\<exists>pre post.
      calls (snd (rgb_set stub [- 1, 30] (fresh 50 100))) =
        calls (fresh 50 100) @ pre \<and>
      calls (snd (rgb_set stub [- 1, 30, 120] (fresh 50 100))) =
        calls (fresh 50 100) @ pre @ [GetFeature (rgb_code 2), SetFeature (rgb_code 2) 100] @ post \<and>
      GetFeature (rgb_code 2) \<notin> set (pre @ post) \<and>
      (\<forall>x. SetFeature (rgb_code 2) x \<notin> set (pre @ post))"
    using rgb_set_sentinel_skips_only_the_write [of 2 "[- 1, 30, 120]" stub "fresh 50 100" 120 50 100] run2
    by (simp add: get2)
  from first run2 third show ?thesis by simp
qed


end
